theory Spec2Isabelle
  imports Main "HOL-Library.Sublist"
begin

section \<open>gitwatcher: a polling deploy supervisor (main.go)\<close>

text \<open>
  The program is one Go file. The main goroutine polls the hosting API every five
  seconds (\<open>check\<close>); each detected change starts a goroutine \<open>runDeploy\<close> that tears
  the previous deployment down and then pulls and launches in a retry loop.

  Everything the code obtains from outside (output of \<open>git\<close>, the HTTP reply, the result
  of the JSON decoder, answers of system calls, the exit status of commands) is an
  argument of the model. Everything the code does to the outside, and every access to a
  package-level variable, is recorded as an \<open>action\<close> in the order the source performs it.
\<close>

subsection \<open>Values\<close>

text \<open>A Go \<open>error\<close> value; only its message is ever used (it is printed).\<close>

datatype err = Err string

fun Error :: "err \<Rightarrow> string" where
  "Error (Err m) = m"

text \<open>\<open>time.Duration\<close> counts nanoseconds.\<close>

definition Second :: nat where
  "Second = 1000000000"

text \<open>\<open>retryDelay = 10 * time.Second\<close> (line 28); the variable is never assigned again.\<close>

definition retryDelay :: nat where
  "retryDelay = 10 * Second"

definition SIGKILL :: nat where
  "SIGKILL = 9"

definition StatusOK :: int where
  "StatusOK = 200"

text \<open>The package-level variables of lines 22 to 27 that goroutines share.\<close>

datatype var = LastSHA | DeployCtx | DeployCancel | DeployProcess

text \<open>
  Observable steps. A context is named by the number \<open>context.WithCancel\<close> gave it, an
  \<open>exec.Cmd\<close> object by its address in the store of commands.
\<close>

datatype action =
    Lock                                     \<comment> \<open>\<open>mu.Lock()\<close> returned\<close>
  | Unlock                                   \<comment> \<open>\<open>mu.Unlock()\<close>\<close>
  | Read var                                 \<comment> \<open>a read of a shared variable\<close>
  | Write var                                \<comment> \<open>an assignment to a shared variable\<close>
  | Log string                               \<comment> \<open>\<open>log.Println\<close>\<close>
  | Exit int                                 \<comment> \<open>\<open>os.Exit\<close>, reached through \<open>log.Fatal\<close>\<close>
  | Exec "string list"                       \<comment> \<open>\<open>exec.Command(...).Output()\<close>\<close>
  | HttpGet string "(string \<times> string) list"   \<comment> \<open>\<open>client.Do\<close> of a GET request with headers\<close>
  | CloseBody                                \<comment> \<open>the deferred \<open>resp.Body.Close()\<close>\<close>
  | Go                                       \<comment> \<open>\<open>go runDeploy()\<close>\<close>
  | Sleep nat                                \<comment> \<open>\<open>time.Sleep\<close> was called with this duration\<close>
  | Cancel nat                               \<comment> \<open>the cancel function of a context was called\<close>
  | Getpgid int                              \<comment> \<open>\<open>syscall.Getpgid(pid)\<close>\<close>
  | Kill int nat                             \<comment> \<open>\<open>syscall.Kill(pid, sig)\<close>\<close>
  | Wait nat                                 \<comment> \<open>\<open>Wait()\<close> on a command object\<close>
  | WithCancel nat                           \<comment> \<open>\<open>context.WithCancel\<close> returned this context\<close>
  | ExecCtx nat "string list"                \<comment> \<open>\<open>exec.CommandContext(ctx, ...).Run()\<close> of \<open>git pull\<close>\<close>
  | StartProc nat int                        \<comment> \<open>a command object was started as this process\<close>

subsection \<open>String helpers of package \<open>strings\<close>\<close>

text \<open>
  Strings are byte lists. \<open>isSpace\<close> holds of the six ASCII white-space bytes that
  \<open>strings.TrimSpace\<close> removes; white space outside ASCII is several bytes long and is
  left alone here (hashes, branch names and remote URLs are ASCII).
\<close>

definition isSpace :: "char \<Rightarrow> bool" where
  "isSpace c \<longleftrightarrow> c \<in> {CHR 0x09, CHR 0x0A, CHR 0x0B, CHR 0x0C, CHR 0x0D, CHR '' ''}"

definition TrimSpace :: "string \<Rightarrow> string" where
  "TrimSpace s = rev (dropWhile isSpace (rev (dropWhile isSpace s)))"

definition TrimSuffix :: "string \<Rightarrow> string \<Rightarrow> string" where
  "TrimSuffix s suf = (if suffix suf s then take (length s - length suf) s else s)"

text \<open>\<open>strings.Replace(s, old, new, 1)\<close>: the first occurrence only.\<close>

fun Replace1 :: "string \<Rightarrow> string \<Rightarrow> string \<Rightarrow> string" where
  "Replace1 [] old new = (if old = [] then new else [])"
| "Replace1 (c # cs) old new =
     (if prefix old (c # cs) then new @ drop (length old) (c # cs)
      else c # Replace1 cs old new)"

subsection \<open>The change detector: \<open>getCurrentBranch\<close>, \<open>getRepoOwnerAndName\<close>, \<open>check\<close>\<close>

text \<open>
  What one poll receives from outside. \<open>decoded\<close> is the result of
  \<open>json.NewDecoder(resp.Body).Decode(&data)\<close>: an error, or the value the decoder left in
  \<open>data.SHA\<close> (the empty string when the body has no such field, Go's zero value).
  \<open>new_request\<close> is the error of \<open>http.NewRequest\<close>, which line 77 discards.
\<close>

record response =
  StatusCode :: int
  Status :: string
  decoded :: "err + string"

record poll_env =
  git_branch :: "err + string"
  git_remote :: "err + string"
  new_request :: "err option"
  http_do :: "err + response"

definition getCurrentBranch :: "err + string \<Rightarrow> err + string" where
  "getCurrentBranch out = (case out of Inl e \<Rightarrow> Inl e | Inr s \<Rightarrow> Inr (TrimSpace s))"

definition getRepoOwnerAndName :: "err + string \<Rightarrow> err + string" where
  "getRepoOwnerAndName out =
     (case out of
        Inl e \<Rightarrow> Inl e
      | Inr s \<Rightarrow>
          (let url = TrimSpace s;
               url = TrimSuffix url ''.git'';
               url = Replace1 url ''git@github.com:'' '''';
               url = Replace1 url ''https://github.com/'' ''''
           in Inr url))"

text \<open>How a call ends: it returns, or the goroutine panics (which ends the process).\<close>

datatype ending = Returned | Panicked

text \<open>
  \<open>check\<close> (lines 63 to 111) with the token flag, the poll's environment and the value
  of \<open>lastSHA\<close> before; the result is how it ended, \<open>lastSHA\<close> after, and its actions.
  When \<open>http.NewRequest\<close> fails, \<open>req\<close> is nil and line 78 dereferences it.
\<close>

definition check :: "string \<Rightarrow> poll_env \<Rightarrow> string \<Rightarrow> ending \<times> string \<times> action list" where
  "check tokenFlag env lastSHA =
     (let a1 = [Exec [''git'', ''rev-parse'', ''--abbrev-ref'', ''HEAD'']] in
      case getCurrentBranch (git_branch env) of
        Inl e \<Rightarrow> (Returned, lastSHA, a1 @ [Log (''cannot get current branch: '' @ Error e)])
      | Inr branch \<Rightarrow>
     (let a2 = a1 @ [Exec [''git'', ''config'', ''--get'', ''remote.origin.url'']] in
      case getRepoOwnerAndName (git_remote env) of
        Inl e \<Rightarrow> (Returned, lastSHA, a2 @ [Log (''cannot get repo owner/name: '' @ Error e)])
      | Inr repoURL \<Rightarrow>
     (let apiURL = ''https://api.github.com/repos/'' @ repoURL @ ''/commits/'' @ branch in
      case new_request env of
        Some e \<Rightarrow> (Panicked, lastSHA, a2)
      | None \<Rightarrow>
     (let a3 = a2 @ [HttpGet apiURL
                       [(''Authorization'', ''Bearer '' @ tokenFlag),
                        (''Accept'', ''application/vnd.github+json'')]] in
      case http_do env of
        Inl e \<Rightarrow> (Returned, lastSHA, a3 @ [Log (''request error: '' @ Error e)])
      | Inr resp \<Rightarrow>
          if StatusCode resp \<noteq> StatusOK
          then (Returned, lastSHA, a3 @ [Log (''bad status: '' @ Status resp), CloseBody])
          else
            (case decoded resp of
               Inl e \<Rightarrow> (Returned, lastSHA, a3 @ [Log (''decode error: '' @ Error e), CloseBody])
             | Inr sha \<Rightarrow>
                 (let currentSHA = TrimSpace sha in
                  if currentSHA = lastSHA
                  then (Returned, lastSHA, a3 @ [Read LastSHA, CloseBody])
                  else (Returned, currentSHA,
                        a3 @ [Read LastSHA, Write LastSHA, Read LastSHA,
                              Log (''New commit detected: '' @ currentSHA), Go, CloseBody])))))))"

subsection \<open>\<open>main\<close>\<close>

text \<open>
  The loop of lines 37 to 40 never ends by itself. It is run over the environments of
  finitely many successive polls; when they are used up the loop is still \<open>Looping\<close>.
\<close>

datatype status = Looping | Exited int | Crashed

fun poll_loop :: "string \<Rightarrow> poll_env list \<Rightarrow> string \<Rightarrow> status \<times> string \<times> action list" where
  "poll_loop tokenFlag [] lastSHA = (Looping, lastSHA, [])"
| "poll_loop tokenFlag (env # envs) lastSHA =
     (case check tokenFlag env lastSHA of
        (Panicked, l, as) \<Rightarrow> (Crashed, l, as)
      | (Returned, l, as) \<Rightarrow>
          (case poll_loop tokenFlag envs l of
             (st, l', bs) \<Rightarrow> (st, l', as @ Sleep (5 * Second) # bs)))"

text \<open>
  \<open>main\<close> (lines 31 to 41) with the two flags as parsed; \<open>lastSHA\<close> starts as the empty
  string. \<open>log.Fatal\<close> prints and calls \<open>os.Exit(1)\<close>.
\<close>

definition main :: "string \<Rightarrow> string \<Rightarrow> poll_env list \<Rightarrow> status \<times> string \<times> action list" where
  "main tokenFlag deployCmd envs =
     (if tokenFlag = '''' \<or> deployCmd = ''''
      then (Exited 1, '''', [Log ''flags -token and -deploy are required'', Exit 1])
      else poll_loop tokenFlag envs '''')"

subsection \<open>Reference notions and sample inputs for the change detector\<close>

text \<open>
  The hash a poll fetches: defined when every stage of the poll succeeds, and then the
  trimmed \<open>sha\<close> of the reply.
\<close>

definition fetched :: "poll_env \<Rightarrow> string option" where
  "fetched env =
     (case (git_branch env, git_remote env, new_request env, http_do env) of
        (Inr b, Inr r, None, Inr resp) \<Rightarrow>
          (if StatusCode resp = StatusOK
           then (case decoded resp of Inr sha \<Rightarrow> Some (TrimSpace sha) | Inl e \<Rightarrow> None)
           else None)
      | _ \<Rightarrow> None)"

text \<open>A poll in which every stage succeeds and the reply carries the given \<open>sha\<close>.\<close>

definition ok_poll :: "string \<Rightarrow> poll_env" where
  "ok_poll sha =
     \<lparr>git_branch = Inr ''main'',
      git_remote = Inr ''git@github.com:fess932/gitwatcher.git'',
      new_request = None,
      http_do = Inr \<lparr>StatusCode = 200, Status = ''200 OK'', decoded = Inr sha\<rparr>\<rparr>"

text \<open>
  A poll answered with status 200 and the body \<open>[]\<close>: valid JSON without a \<open>sha\<close>
  member. \<open>Decode\<close> cannot store an array in the struct of line 94 and returns an
  \<open>UnmarshalTypeError\<close>.
\<close>

definition array_body_poll :: poll_env where
  "array_body_poll =
     \<lparr>git_branch = Inr ''main'',
      git_remote = Inr ''git@github.com:fess932/gitwatcher.git'',
      new_request = None,
      http_do = Inr \<lparr>StatusCode = 200, Status = ''200 OK'',
                      decoded = Inl (Err ''json: cannot unmarshal array into Go value'')\<rparr>\<rparr>"

subsection \<open>Shared state of the deploy goroutines\<close>

text \<open>
  An \<open>exec.Cmd\<close> object as far as the code uses it. \<open>Process\<close> is nil (\<open>None\<close>) until the
  command has been started; then it holds the process id.
\<close>

record cmd =
  Args :: "string list"
  Ctx :: nat
  Setpgid :: bool
  Process :: "int option"

text \<open>
  The variables of lines 24 to 27, the store of command objects they point into, the
  set of contexts whose \<open>Done\<close> channel is closed, and the clock. \<open>mu\<close> holds the goroutine
  that has the mutex. A nil pointer, context or function value is \<open>None\<close>.
\<close>

record shared =
  mu :: "nat option"
  deployCtx :: "nat option"
  deployCancel :: "nat option"
  deployProcess :: "nat option"
  cmds :: "nat \<Rightarrow> cmd"
  cmd_count :: nat
  ctx_count :: nat
  cancelled :: "nat set"
  now :: nat

definition startup :: shared where
  "startup =
     \<lparr>mu = None, deployCtx = None, deployCancel = None, deployProcess = None,
      cmds = (\<lambda>p. \<lparr>Args = [], Ctx = 0, Setpgid = False, Process = None\<rparr>),
      cmd_count = 0, ctx_count = 0, cancelled = {}, now = 0\<rparr>"

text \<open>
  What the operating system answers to a deploy goroutine: the result of
  \<open>syscall.Getpgid\<close>, the error of \<open>git pull\<close>, the process id or error of starting
  the deploy command, and the error of waiting for it (\<open>None\<close> is exit status 0).
\<close>

record sysenv =
  getpgid_ret :: "err + int"
  pull_ret :: "err option"
  start_ret :: "err + int"
  wait_ret :: "err option"

subsection \<open>\<open>runDeploy\<close> as a machine\<close>

text \<open>
  The control points of \<open>runDeploy\<close> (lines 113 to 164). \<open>cmd.Run()\<close> of line 154 is
  start followed by wait, since \<open>Process\<close> is set in between. A goroutine inside
  \<open>time.Sleep\<close> is \<open>Sleeping w k\<close>: it continues at \<open>k\<close> once the clock has reached \<open>w\<close>.
  The states of the specification are \<open>PullingSource\<close>, \<open>Launching\<close>, \<open>Running\<close>,
  \<open>Cancelled\<close>, \<open>Done\<close>, and \<open>Sleeping w Select\<close> for RetryBackoff.
\<close>

datatype pc =
    Entry              \<comment> \<open>line 114, before \<open>mu.Lock()\<close>\<close>
  | CancelPrev         \<comment> \<open>lines 115 to 118\<close>
  | KillPrev           \<comment> \<open>lines 119 to 124\<close>
  | WaitPrev           \<comment> \<open>line 125\<close>
  | PortPause          \<comment> \<open>line 126\<close>
  | NewLifetime        \<comment> \<open>line 128\<close>
  | Release            \<comment> \<open>line 129\<close>
  | Select             \<comment> \<open>lines 132 to 137\<close>
  | PullingSource      \<comment> \<open>lines 139 to 143\<close>
  | Launching          \<comment> \<open>lines 145 to 148\<close>
  | RegLock nat        \<comment> \<open>line 150\<close>
  | Register nat       \<comment> \<open>lines 151 and 152\<close>
  | Starting nat       \<comment> \<open>line 154, the start of \<open>cmd.Run()\<close>\<close>
  | Running nat        \<comment> \<open>line 154, the wait of \<open>cmd.Run()\<close>, then lines 155 to 161\<close>
  | Sleeping nat pc    \<comment> \<open>inside \<open>time.Sleep\<close>\<close>
  | Cancelled          \<comment> \<open>returned at line 135\<close>
  | Done               \<comment> \<open>returned at line 161\<close>
  | Panic              \<comment> \<open>a nil context was used\<close>

text \<open>
  One step of goroutine \<open>g\<close> running \<open>runDeploy\<close>; \<open>None\<close> when it cannot move: the
  mutex is taken, the sleep has not elapsed, or the function has ended. No step looks
  at \<open>cancelled\<close> except the \<open>select\<close> of line 132, and every read of \<open>deployCtx\<close> takes
  the value the variable has at that moment.
\<close>

fun rd_step :: "nat \<Rightarrow> string \<Rightarrow> sysenv \<Rightarrow> pc \<Rightarrow> shared \<Rightarrow> (pc \<times> shared \<times> action list) option" where
  "rd_step g deployCmd env Entry s =
     (if mu s = None then Some (CancelPrev, s\<lparr>mu := Some g\<rparr>, [Lock]) else None)"
| "rd_step g deployCmd env CancelPrev s =
     (case deployCancel s of
        None \<Rightarrow> Some (KillPrev, s, [Read DeployCancel])
      | Some c \<Rightarrow>
          Some (KillPrev, s\<lparr>cancelled := insert c (cancelled s)\<rparr>,
                [Read DeployCancel, Log ''Cancelling previous deploy...'',
                 Read DeployCancel, Cancel c]))"
| "rd_step g deployCmd env KillPrev s =
     (case deployProcess s of
        None \<Rightarrow> Some (NewLifetime, s, [Read DeployProcess])
      | Some p \<Rightarrow>
          (case Process (cmds s p) of
             None \<Rightarrow> Some (NewLifetime, s, [Read DeployProcess, Read DeployProcess])
           | Some pid \<Rightarrow>
               Some (WaitPrev, s,
                     [Read DeployProcess, Read DeployProcess,
                      Log ''Killing previous server process group...'',
                      Read DeployProcess, Getpgid pid]
                     @ (case getpgid_ret env of
                          Inl e \<Rightarrow> []
                        | Inr pgid \<Rightarrow> [Kill (- pgid) SIGKILL]))))"
| "rd_step g deployCmd env WaitPrev s =
     (case deployProcess s of
        None \<Rightarrow> Some (Panic, s, [Read DeployProcess])
      | Some p \<Rightarrow> Some (PortPause, s, [Read DeployProcess, Wait p]))"
| "rd_step g deployCmd env PortPause s =
     Some (Sleeping (now s + 2 * Second) NewLifetime, s, [Sleep (2 * Second)])"
| "rd_step g deployCmd env (Sleeping w k) s =
     (if w \<le> now s then Some (k, s, []) else None)"
| "rd_step g deployCmd env NewLifetime s =
     (let c = ctx_count s
      in Some (Release, s\<lparr>deployCtx := Some c, deployCancel := Some c, ctx_count := Suc c\<rparr>,
               [WithCancel c, Write DeployCtx, Write DeployCancel]))"
| "rd_step g deployCmd env Release s = Some (Select, s\<lparr>mu := None\<rparr>, [Unlock])"
| "rd_step g deployCmd env Select s =
     (case deployCtx s of
        None \<Rightarrow> Some (Panic, s, [Read DeployCtx])
      | Some c \<Rightarrow>
          if c \<in> cancelled s
          then Some (Cancelled, s, [Read DeployCtx, Log ''Deploy cancelled''])
          else Some (PullingSource, s, [Read DeployCtx, Log ''Starting deploy...'']))"
| "rd_step g deployCmd env PullingSource s =
     (case deployCtx s of
        None \<Rightarrow> Some (Panic, s, [Read DeployCtx])
      | Some c \<Rightarrow>
          (case pull_ret env of
             Some e \<Rightarrow>
               Some (Sleeping (now s + retryDelay) Select, s,
                     [Read DeployCtx, ExecCtx c [''git'', ''pull''],
                      Log (''git pull failed: '' @ Error e), Sleep retryDelay])
           | None \<Rightarrow> Some (Launching, s, [Read DeployCtx, ExecCtx c [''git'', ''pull'']])))"
| "rd_step g deployCmd env Launching s =
     (case deployCtx s of
        None \<Rightarrow> Some (Panic, s, [Read DeployCtx])
      | Some c \<Rightarrow>
          (let p = cmd_count s
           in Some (RegLock p,
                    s\<lparr>cmds := (cmds s)
                         (p := \<lparr>Args = [''sh'', ''-c'', deployCmd], Ctx = c,
                                Setpgid = True, Process = None\<rparr>),
                      cmd_count := Suc p\<rparr>,
                    [Read DeployCtx])))"
| "rd_step g deployCmd env (RegLock p) s =
     (if mu s = None then Some (Register p, s\<lparr>mu := Some g\<rparr>, [Lock]) else None)"
| "rd_step g deployCmd env (Register p) s =
     Some (Starting p, s\<lparr>deployProcess := Some p, mu := None\<rparr>, [Write DeployProcess, Unlock])"
| "rd_step g deployCmd env (Starting p) s =
     (case start_ret env of
        Inl e \<Rightarrow>
          Some (Sleeping (now s + retryDelay) Select, s,
                [Log (''deploy command failed: '' @ Error e), Sleep retryDelay])
      | Inr pid \<Rightarrow>
          Some (Running p, s\<lparr>cmds := (cmds s)(p := (cmds s p)\<lparr>Process := Some pid\<rparr>)\<rparr>,
                [StartProc p pid]))"
| "rd_step g deployCmd env (Running p) s =
     (case wait_ret env of
        Some e \<Rightarrow>
          Some (Sleeping (now s + retryDelay) Select, s,
                [Log (''deploy command failed: '' @ Error e), Sleep retryDelay])
      | None \<Rightarrow> Some (Done, s, [Log ''Deploy finished successfully'']))"
| "rd_step g deployCmd env Cancelled s = None"
| "rd_step g deployCmd env Done s = None"
| "rd_step g deployCmd env Panic s = None"

text \<open>
  One goroutine run on its own: time passes (\<open>Elapse\<close>) or the goroutine is given the
  chance of a step with the system's answers (\<open>Answer\<close>); a goroutine that cannot move
  stays where it is.
\<close>

datatype sev = Elapse nat | Answer sysenv

fun rd_exec :: "nat \<Rightarrow> string \<Rightarrow> sev list \<Rightarrow> pc \<times> shared \<times> action list \<Rightarrow> pc \<times> shared \<times> action list" where
  "rd_exec g deployCmd [] c = c"
| "rd_exec g deployCmd (Elapse n # evs) (k, s, as) =
     rd_exec g deployCmd evs (k, s\<lparr>now := now s + n\<rparr>, as)"
| "rd_exec g deployCmd (Answer env # evs) (k, s, as) =
     (case rd_step g deployCmd env k s of
        None \<Rightarrow> rd_exec g deployCmd evs (k, s, as)
      | Some (k', s', bs) \<Rightarrow> rd_exec g deployCmd evs (k', s', as @ bs))"

subsection \<open>The whole program after start-up\<close>

text \<open>
  The main goroutine (number 0) and the deploy goroutines (number \<open>i + 1\<close> for the
  \<open>i\<close>-th started) interleaved by a schedule. A poll is one event: \<open>check\<close> shares only
  \<open>lastSHA\<close>, which no deploy goroutine touches, and its \<open>go\<close> statement. A panic ends
  the process.
\<close>

record sys =
  sh :: shared
  lastSHA :: string
  runners :: "pc list"
  alive :: bool
  trace :: "(nat \<times> action) list"

datatype event = Tick nat | Poll poll_env | Run nat sysenv

definition boot :: sys where
  "boot = \<lparr>sh = startup, lastSHA = '''', runners = [], alive = True, trace = []\<rparr>"

fun sys_step :: "string \<Rightarrow> string \<Rightarrow> sys \<Rightarrow> event \<Rightarrow> sys" where
  "sys_step tokenFlag deployCmd z (Tick n) =
     (if alive z then z\<lparr>sh := (sh z)\<lparr>now := now (sh z) + n\<rparr>\<rparr> else z)"
| "sys_step tokenFlag deployCmd z (Poll env) =
     (if alive z then
        (case check tokenFlag env (lastSHA z) of
           (Panicked, l, as) \<Rightarrow> z\<lparr>alive := False, trace := trace z @ map (Pair 0) as\<rparr>
         | (Returned, l, as) \<Rightarrow>
             z\<lparr>lastSHA := l,
               runners := runners z @ replicate (count_list as Go) Entry,
               trace := trace z @ map (Pair 0) as\<rparr>)
      else z)"
| "sys_step tokenFlag deployCmd z (Run i env) =
     (if alive z \<and> i < length (runners z) then
        (case rd_step (Suc i) deployCmd env (runners z ! i) (sh z) of
           None \<Rightarrow> z
         | Some (k, s, as) \<Rightarrow>
             z\<lparr>sh := s, runners := (runners z)[i := k], alive := (k \<noteq> Panic),
               trace := trace z @ map (Pair (Suc i)) as\<rparr>)
      else z)"

definition sys_run :: "string \<Rightarrow> string \<Rightarrow> event list \<Rightarrow> sys \<Rightarrow> sys" where
  "sys_run tokenFlag deployCmd evs z = foldl (sys_step tokenFlag deployCmd) z evs"

subsection \<open>Reference notions and sample inputs for the deploy goroutines\<close>

text \<open>
  Lock discipline of one goroutine's actions: every action that \<open>P\<close> selects happens
  between a \<open>Lock\<close> and the next \<open>Unlock\<close> of that goroutine. \<open>held\<close> says whether the
  goroutine has the mutex at the start.
\<close>

fun guarded :: "(action \<Rightarrow> bool) \<Rightarrow> bool \<Rightarrow> action list \<Rightarrow> bool" where
  "guarded P held [] = True"
| "guarded P held (Lock # as) = guarded P True as"
| "guarded P held (Unlock # as) = guarded P False as"
| "guarded P held (a # as) = ((P a \<longrightarrow> held) \<and> guarded P held as)"

fun held_after :: "bool \<Rightarrow> action list \<Rightarrow> bool" where
  "held_after held [] = held"
| "held_after held (Lock # as) = held_after True as"
| "held_after held (Unlock # as) = held_after False as"
| "held_after held (a # as) = held_after held as"

text \<open>Any read or write of a shared variable.\<close>

fun is_access :: "action \<Rightarrow> bool" where
  "is_access (Read v) = True"
| "is_access (Write v) = True"
| "is_access a = False"

text \<open>
  The accesses the code does make under the mutex: every write of a deploy-side
  variable, and every read of the cancel function and of the process handle.
\<close>

fun under_mu :: "action \<Rightarrow> bool" where
  "under_mu (Write v) = True"
| "under_mu (Read DeployCancel) = True"
| "under_mu (Read DeployProcess) = True"
| "under_mu a = False"

text \<open>The control points at which the goroutine has the mutex.\<close>

fun holds :: "pc \<Rightarrow> bool" where
  "holds CancelPrev = True"
| "holds KillPrev = True"
| "holds WaitPrev = True"
| "holds PortPause = True"
| "holds NewLifetime = True"
| "holds Release = True"
| "holds (Register p) = True"
| "holds (Sleeping w k) = holds k"
| "holds k = False"

text \<open>
  One failing attempt of the retry loop, from the \<open>select\<close> back to the \<open>select\<close>: seven
  steps up to the exit of the deploy command, the retry delay, and the wake-up.
\<close>

definition retry_round :: "sysenv \<Rightarrow> sev list" where
  "retry_round env = replicate 7 (Answer env) @ [Elapse retryDelay, Answer env]"

text \<open>A deploy command that is started and exits with an error, after a pull that succeeded.\<close>

definition deploy_fails :: "sysenv \<Rightarrow> bool" where
  "deploy_fails env \<longleftrightarrow> pull_ret env = None \<and> \<not> isl (start_ret env) \<and> wait_ret env \<noteq> None"

text \<open>The actions of such an attempt under context \<open>c\<close> with the command object at \<open>p\<close>.\<close>

definition attempt :: "nat \<Rightarrow> nat \<Rightarrow> sysenv \<Rightarrow> action list" where
  "attempt c p env =
     [Read DeployCtx, Log ''Starting deploy...'',
      Read DeployCtx, ExecCtx c [''git'', ''pull''],
      Read DeployCtx, Lock, Write DeployProcess, Unlock,
      StartProc p (projr (start_ret env)),
      Log (''deploy command failed: '' @ Error (the (wait_ret env))), Sleep retryDelay]"

fun attempts :: "nat \<Rightarrow> nat \<Rightarrow> sysenv list \<Rightarrow> action list" where
  "attempts c p [] = []"
| "attempts c p (env # envs) = attempt c p env @ attempts c (Suc p) envs"

text \<open>Sample states, answers and schedules.\<close>

definition ready :: shared where
  "ready = startup\<lparr>deployCtx := Some 0, deployCancel := Some 0, ctx_count := 1\<rparr>"

definition exit1 :: sysenv where
  "exit1 = \<lparr>getpgid_ret = Inr 4242, pull_ret = None, start_ret = Inr 4242,
             wait_ret = Some (Err ''exit status 1'')\<rparr>"

definition pull_fails :: sysenv where
  "pull_fails = \<lparr>getpgid_ret = Inl (Err ''no such process''),
                  pull_ret = Some (Err ''exit status 1''),
                  start_ret = Inr 4242, wait_ret = Some (Err ''exit status 1'')\<rparr>"

definition stale_until_cancel :: "event list" where
  "stale_until_cancel =
     [Poll (ok_poll ''abc123''),
      Run 0 pull_fails, Run 0 pull_fails, Run 0 pull_fails, Run 0 pull_fails,
      Run 0 pull_fails, Run 0 pull_fails, Run 0 pull_fails,
      Tick (3 * Second), Poll (ok_poll ''def456''), Run 1 pull_fails, Run 1 pull_fails,
      Run 0 pull_fails]"

definition stale_after_cancel :: "event list" where
  "stale_after_cancel =
     [Run 1 pull_fails, Run 1 pull_fails, Run 1 pull_fails, Tick (7 * Second),
      Run 0 pull_fails, Run 0 pull_fails, Run 0 pull_fails]"

text \<open>The actions of a teardown that finds process \<open>pid\<close> of group \<open>pgid\<close> tracked at \<open>p\<close>.\<close>

definition teardown_trace :: "shared \<Rightarrow> nat \<Rightarrow> int \<Rightarrow> int \<Rightarrow> action list" where
  "teardown_trace s p pid pgid =
     [Lock]
     @ (case deployCancel s of
          None \<Rightarrow> [Read DeployCancel]
        | Some c \<Rightarrow> [Read DeployCancel, Log ''Cancelling previous deploy...'',
                     Read DeployCancel, Cancel c])
     @ [Read DeployProcess, Read DeployProcess,
        Log ''Killing previous server process group...'',
        Read DeployProcess, Getpgid pid,
        Kill (- pgid) SIGKILL,
        Read DeployProcess, Wait p,
        Sleep (2 * Second)]"

text \<open>
  A state in which a first deployment runs: context 0 is current and command object 0,
  started as process 4242, is tracked. And answers for a process that is gone.
\<close>

definition deployed :: shared where
  "deployed =
     ready\<lparr>deployProcess := Some 0,
           cmds := (cmds startup)
             (0 := \<lparr>Args = [''sh'', ''-c'', ''./run.sh''], Ctx = 0, Setpgid = True,
                    Process = Some 4242\<rparr>),
           cmd_count := 1\<rparr>"

definition gone :: sysenv where
  "gone = \<lparr>getpgid_ret = Inl (Err ''no such process''), pull_ret = None,
            start_ret = Inr 4343, wait_ret = None\<rparr>"


section \<open>Properties of the change detector and of \<open>main\<close>\<close>

lemma TrimSpace_Nil: "TrimSpace [] = []"
  by (simp add: TrimSpace_def)

lemma TrimSpace_hex: "TrimSpace ''abc123'' = ''abc123''" "TrimSpace ''def456'' = ''def456''"
  by (simp_all add: TrimSpace_def isSpace_def)

lemma fetched_ok_poll: "fetched (ok_poll sha) = Some (TrimSpace sha)"
  by (simp add: fetched_def ok_poll_def StatusOK_def)

lemma check_lastSHA:
  "fst (snd (check tok env l)) = (case fetched env of Some h \<Rightarrow> h | None \<Rightarrow> l)"
  by (auto simp add: check_def fetched_def getCurrentBranch_def getRepoOwnerAndName_def Let_def
      split: sum.splits option.splits)

lemma check_ending:
  "fst (check tok env l) = Panicked \<longleftrightarrow>
     \<not> isl (git_branch env) \<and> \<not> isl (git_remote env) \<and> new_request env \<noteq> None"
  by (simp add: check_def getCurrentBranch_def getRepoOwnerAndName_def Let_def
      split: sum.splits option.splits)

lemma check_first_action:
  "\<exists>rest. snd (snd (check tok env l)) = Exec [''git'', ''rev-parse'', ''--abbrev-ref'', ''HEAD''] # rest"
  by (simp add: check_def getCurrentBranch_def getRepoOwnerAndName_def Let_def
      split: sum.splits option.splits)

lemma poll_loop_first_action:
  "\<exists>rest. snd (snd (poll_loop tok (env # envs) l)) =
      Exec [''git'', ''rev-parse'', ''--abbrev-ref'', ''HEAD''] # rest"
proof -
  obtain e l' as where c: "check tok env l = (e, l', as)"
    by (cases "check tok env l")
  with check_first_action [of tok env l] obtain rest where
    as: "as = Exec [''git'', ''rev-parse'', ''--abbrev-ref'', ''HEAD''] # rest"
    by auto
  show ?thesis
    using c as by (cases e) (auto split: prod.splits)
qed

lemma poll_loop_fold:
  "fst (poll_loop tok envs l) = Looping \<Longrightarrow>
   fst (snd (poll_loop tok envs l)) =
     foldl (\<lambda>l env. case fetched env of Some h \<Rightarrow> h | None \<Rightarrow> l) l envs"
proof (induction envs arbitrary: l)
  case Nil
  then show ?case by simp
next
  case (Cons env envs)
  obtain e l' as where c: "check tok env l = (e, l', as)"
    by (cases "check tok env l")
  obtain st l'' bs where p: "poll_loop tok envs l' = (st, l'', bs)"
    by (cases "poll_loop tok envs l'")
  from Cons.prems c p have e: "e = Returned" and st: "st = Looping"
    by (cases e; simp)+
  from c have l': "l' = (case fetched env of Some h \<Rightarrow> h | None \<Rightarrow> l)"
    using check_lastSHA [of tok env l] by simp
  from Cons.IH [of l'] p st
  have "l'' = foldl (\<lambda>l env. case fetched env of Some h \<Rightarrow> h | None \<Rightarrow> l) l' envs"
    by simp
  with c p e l' show ?case by simp
qed

lemma poll_loop_ok_polls: "fst (poll_loop tok (map ok_poll shas) l) = Looping"
proof (induction shas arbitrary: l)
  case Nil
  show ?case by simp
next
  case (Cons s shas)
  obtain e l' as where c: "check tok (ok_poll s) l = (e, l', as)"
    by (cases "check tok (ok_poll s) l")
  have "e \<noteq> Panicked"
    using check_ending [of tok "ok_poll s" l] c by (simp add: ok_poll_def)
  then have e: "e = Returned" by (cases e) simp_all
  show ?case using Cons.IH [of l'] c e by (auto split: prod.splits)
qed

text \<open>
  C3. A poll in which every stage succeeds stores the fetched hash if and only if it
  differs from the stored one. When it is equal, nothing is written and no deploy
  goroutine is started; when it differs, \<open>lastSHA\<close> is assigned exactly once and exactly
  one \<open>go runDeploy()\<close> is executed.
\<close>

theorem check_updates_iff_changed:
  assumes "git_branch env = Inr b" and "git_remote env = Inr r" and "new_request env = None"
    and "http_do env = Inr resp" and "StatusCode resp = StatusOK" and "decoded resp = Inr sha"
  shows "fst (check tok env old) = Returned
       \<and> fst (snd (check tok env old)) = TrimSpace sha
       \<and> (fst (snd (check tok env old)) \<noteq> old \<longleftrightarrow> TrimSpace sha \<noteq> old)
       \<and> count_list (snd (snd (check tok env old))) (Write LastSHA)
            = (if TrimSpace sha = old then 0 else 1)
       \<and> count_list (snd (snd (check tok env old))) Go
            = (if TrimSpace sha = old then 0 else 1)
       \<and> (TrimSpace sha = old \<longrightarrow> (\<forall>v. Write v \<notin> set (snd (snd (check tok env old)))))"
  using assms by (simp add: check_def getCurrentBranch_def getRepoOwnerAndName_def Let_def)

theorem check_updates_iff_changed_witness:
  "git_branch (ok_poll ''abc123'') = Inr ''main''
   \<and> new_request (ok_poll ''abc123'') = None
   \<and> http_do (ok_poll ''abc123'') = Inr \<lparr>StatusCode = 200, Status = ''200 OK'', decoded = Inr ''abc123''\<rparr>
   \<and> fst (snd (check ''tok'' (ok_poll ''abc123'') '''')) = ''abc123''
   \<and> count_list (snd (snd (check ''tok'' (ok_poll ''abc123'') ''''))) (Write LastSHA) = 1
   \<and> count_list (snd (snd (check ''tok'' (ok_poll ''abc123'') ''''))) Go = 1
   \<and> fst (snd (check ''tok'' (ok_poll ''abc123'') ''abc123'')) = ''abc123''
   \<and> count_list (snd (snd (check ''tok'' (ok_poll ''abc123'') ''abc123''))) (Write LastSHA) = 0
   \<and> count_list (snd (snd (check ''tok'' (ok_poll ''abc123'') ''abc123''))) Go = 0"
  using
    check_updates_iff_changed [of "ok_poll ''abc123''" "''main''"
      "''git@github.com:fess932/gitwatcher.git''"
      "\<lparr>StatusCode = 200, Status = ''200 OK'', decoded = Inr ''abc123''\<rparr>" "''abc123''"
      "''tok''" "''''"]
    check_updates_iff_changed [of "ok_poll ''abc123''" "''main''"
      "''git@github.com:fess932/gitwatcher.git''"
      "\<lparr>StatusCode = 200, Status = ''200 OK'', decoded = Inr ''abc123''\<rparr>" "''abc123''"
      "''tok''" "''abc123''"]
  by (simp add: ok_poll_def StatusOK_def TrimSpace_hex)



text \<open>
  C9. With an empty token flag or an empty deploy flag \<open>main\<close> logs the message of line
  34 and exits with status 1 before any poll. With both flags set it enters the loop:
  it behaves as the polling loop started from the empty \<open>lastSHA\<close>, whose first action is
  the branch lookup of the first poll.
\<close>

theorem main_requires_both_flags:
  "(tokenFlag = '''' \<or> deployCmd = '''' \<longrightarrow>
      main tokenFlag deployCmd envs =
        (Exited 1, '''', [Log ''flags -token and -deploy are required'', Exit 1]))
   \<and> (tokenFlag \<noteq> '''' \<and> deployCmd \<noteq> '''' \<longrightarrow>
      main tokenFlag deployCmd envs = poll_loop tokenFlag envs ''''
      \<and> (\<exists>rest. snd (snd (main tokenFlag deployCmd (env # envs))) =
            Exec [''git'', ''rev-parse'', ''--abbrev-ref'', ''HEAD''] # rest))"
  using poll_loop_first_action [of tokenFlag env envs "''''"]
  by (simp add: main_def)

theorem main_requires_both_flags_witness:
  "main '''' ''./run.sh'' [ok_poll ''abc123''] =
     (Exited 1, '''', [Log ''flags -token and -deploy are required'', Exit 1])
   \<and> main ''tok'' '''' [ok_poll ''abc123''] =
     (Exited 1, '''', [Log ''flags -token and -deploy are required'', Exit 1])
   \<and> main ''tok'' ''./run.sh'' [ok_poll ''abc123''] = poll_loop ''tok'' [ok_poll ''abc123''] ''''"
  using main_requires_both_flags [of "''''" "''./run.sh''" "[ok_poll ''abc123'']" "ok_poll ''abc123''"]
    main_requires_both_flags [of "''tok''" "''''" "[ok_poll ''abc123'']" "ok_poll ''abc123''"]
    main_requires_both_flags [of "''tok''" "''./run.sh''" "[ok_poll ''abc123'']" "ok_poll ''abc123''"]
  by simp

text \<open>
  C10 as stated fails. The body \<open>[]\<close> is valid JSON and has no \<open>sha\<close> member, but the
  decoder rejects it; with status 200 and a stored \<open>abc123\<close> the poll logs the decode
  error and returns at line 99: \<open>lastSHA\<close> stays \<open>abc123\<close>, nothing is written and no
  deploy goroutine is started.
\<close>

theorem undecodable_body_counterexample:
  "http_do array_body_poll =
     Inr \<lparr>StatusCode = 200, Status = ''200 OK'',
          decoded = Inl (Err ''json: cannot unmarshal array into Go value'')\<rparr>
   \<and> check ''tok'' array_body_poll ''abc123'' =
       (Returned, ''abc123'',
        [Exec [''git'', ''rev-parse'', ''--abbrev-ref'', ''HEAD''],
         Exec [''git'', ''config'', ''--get'', ''remote.origin.url''],
         HttpGet ''https://api.github.com/repos/fess932/gitwatcher/commits/main''
           [(''Authorization'', ''Bearer tok''), (''Accept'', ''application/vnd.github+json'')],
         Log ''decode error: json: cannot unmarshal array into Go value'',
         CloseBody])
   \<and> fst (snd (check ''tok'' array_body_poll ''abc123'')) \<noteq> ''''
   \<and> Go \<notin> set (snd (snd (check ''tok'' array_body_poll ''abc123'')))
   \<and> Write LastSHA \<notin> set (snd (snd (check ''tok'' array_body_poll ''abc123'')))"
  by (simp add: check_def array_body_poll_def getCurrentBranch_def getRepoOwnerAndName_def
      Let_def StatusOK_def TrimSpace_def isSpace_def TrimSuffix_def suffix_to_prefix)

text \<open>
  C10 amended. A reply with status 200 whose body decodes without error and leaves
  \<open>data.SHA\<close> empty (a JSON object with no \<open>sha\<close> member, or with an empty one) is not
  skipped: the empty string is the fetched identifier. When the stored \<open>lastSHA\<close> is not
  empty it is overwritten with the empty string and one deploy goroutine is started.
\<close>

theorem empty_sha_counts_as_change:
  assumes "git_branch env = Inr b" and "git_remote env = Inr r" and "new_request env = None"
    and "http_do env = Inr resp" and "StatusCode resp = StatusOK" and "decoded resp = Inr ''''"
    and "old \<noteq> ''''"
  shows "fst (check tok env old) = Returned
       \<and> fst (snd (check tok env old)) = ''''
       \<and> count_list (snd (snd (check tok env old))) (Write LastSHA) = 1
       \<and> count_list (snd (snd (check tok env old))) Go = 1"
  using assms
  by (simp add: check_def getCurrentBranch_def getRepoOwnerAndName_def Let_def TrimSpace_Nil)

theorem empty_sha_counts_as_change_witness:
  "decoded \<lparr>StatusCode = 200, Status = ''200 OK'', decoded = Inr ''''\<rparr> = Inr ''''
   \<and> ''abc123'' \<noteq> ''''
   \<and> fst (snd (check ''tok'' (ok_poll '''') ''abc123'')) = ''''
   \<and> count_list (snd (snd (check ''tok'' (ok_poll '''') ''abc123''))) (Write LastSHA) = 1
   \<and> count_list (snd (snd (check ''tok'' (ok_poll '''') ''abc123''))) Go = 1"
  using empty_sha_counts_as_change [of "ok_poll ''''" "''main''"
      "''git@github.com:fess932/gitwatcher.git''"
      "\<lparr>StatusCode = 200, Status = ''200 OK'', decoded = Inr ''''\<rparr>" "''abc123''" "''tok''"]
  by (simp add: ok_poll_def StatusOK_def)

text \<open>
  C7 as stated fails: the remote reports \<open>abc123\<close>, then \<open>def456\<close>, then \<open>abc123\<close> again
  (a branch reset), and \<open>lastSHA\<close> goes back to \<open>abc123\<close>; a reply with an empty hash puts
  it back to the initial empty value.
\<close>

theorem lastSHA_reverts_counterexample:
  "fst (snd (poll_loop ''tok'' [ok_poll ''abc123''] '''')) = ''abc123''
   \<and> fst (snd (poll_loop ''tok'' [ok_poll ''abc123'', ok_poll ''def456''] '''')) = ''def456''
   \<and> fst (snd (poll_loop ''tok'' [ok_poll ''abc123'', ok_poll ''def456'', ok_poll ''abc123''] ''''))
       = ''abc123''
   \<and> fst (snd (poll_loop ''tok'' [ok_poll ''abc123'', ok_poll ''''] '''')) = ''''"
  using poll_loop_fold [OF poll_loop_ok_polls [of "''tok''" "[''abc123'']" "''''"]]
    poll_loop_fold [OF poll_loop_ok_polls [of "''tok''" "[''abc123'', ''def456'']" "''''"]]
    poll_loop_fold [OF poll_loop_ok_polls [of "''tok''" "[''abc123'', ''def456'', ''abc123'']" "''''"]]
    poll_loop_fold [OF poll_loop_ok_polls [of "''tok''" "[''abc123'', '''']" "''''"]]
  by (simp add: fetched_ok_poll TrimSpace_hex TrimSpace_Nil)

text \<open>
  C7 amended. After any sequence of polls that did not crash the process, \<open>lastSHA\<close> is
  the hash fetched by the most recent poll in which every stage succeeded, or the
  initial value when there was none: each such poll replaces it and no other poll
  changes it. Earlier values play no part.
\<close>

theorem lastSHA_is_latest_fetched:
  assumes "fst (poll_loop tok envs l0) = Looping"
  shows "fst (snd (poll_loop tok envs l0)) =
           foldl (\<lambda>l env. case fetched env of Some h \<Rightarrow> h | None \<Rightarrow> l) l0 envs"
  using assms by (rule poll_loop_fold)

theorem lastSHA_is_latest_fetched_witness:
  "fst (poll_loop ''tok'' [ok_poll ''abc123'', (ok_poll ''x'')\<lparr>http_do := Inl (Err ''timeout'')\<rparr>] '''')
     = Looping
   \<and> fst (snd (poll_loop ''tok''
        [ok_poll ''abc123'', (ok_poll ''x'')\<lparr>http_do := Inl (Err ''timeout'')\<rparr>] '''')) = ''abc123''"
proof -
  have l: "fst (poll_loop ''tok''
      [ok_poll ''abc123'', (ok_poll ''x'')\<lparr>http_do := Inl (Err ''timeout'')\<rparr>] '''') = Looping"
    by (simp add: check_def ok_poll_def getCurrentBranch_def getRepoOwnerAndName_def Let_def
        StatusOK_def TrimSpace_hex)
  show ?thesis
    using l lastSHA_is_latest_fetched [OF l]
    by (simp add: fetched_ok_poll TrimSpace_hex) (simp add: fetched_def ok_poll_def)
qed

section \<open>Properties of \<open>runDeploy\<close>\<close>

lemma retry_round_once:
  assumes "deploy_fails env" and "deployCtx s = Some c" and "c \<notin> cancelled s" and "mu s = None"
  shows "\<exists>s'. rd_exec g d (retry_round env @ evs) (Select, s, as)
              = rd_exec g d evs (Select, s', as @ attempt c (cmd_count s) env)
            \<and> deployCtx s' = Some c \<and> cancelled s' = cancelled s \<and> mu s' = None
            \<and> cmd_count s' = Suc (cmd_count s)"
proof -
  from assms(1) obtain pid e where env: "pull_ret env = None" "start_ret env = Inr pid" "wait_ret env = Some e"
    by (cases "start_ret env"; cases "wait_ret env") (auto simp: deploy_fails_def)
  show ?thesis
    using assms(2-4) env
    apply (simp add: retry_round_def attempt_def eval_nat_numeral Let_def)
    apply (rule exI, rule conjI, rule refl)
    apply simp
    done
qed

lemma retry_rounds:
  assumes "\<forall>env \<in> set envs. deploy_fails env"
    and "deployCtx s = Some c" and "c \<notin> cancelled s" and "mu s = None"
  shows "\<exists>s'. rd_exec g d (concat (map retry_round envs)) (Select, s, as)
              = (Select, s', as @ attempts c (cmd_count s) envs)
            \<and> deployCtx s' = Some c \<and> cancelled s' = cancelled s \<and> mu s' = None"
  using assms
proof (induction envs arbitrary: s as)
  case Nil
  then show ?case by simp
next
  case (Cons env envs)
  from Cons.prems have f: "deploy_fails env" by simp
  from retry_round_once [OF f Cons.prems(2-4), of g d "concat (map retry_round envs)" as]
  obtain s1 where
    r: "rd_exec g d (retry_round env @ concat (map retry_round envs)) (Select, s, as)
          = rd_exec g d (concat (map retry_round envs)) (Select, s1, as @ attempt c (cmd_count s) env)"
    and i: "deployCtx s1 = Some c" "cancelled s1 = cancelled s" "mu s1 = None"
      "cmd_count s1 = Suc (cmd_count s)"
    by blast
  from Cons.prems i have c1: "c \<notin> cancelled s1" by simp
  from Cons.prems have rest: "\<forall>env \<in> set envs. deploy_fails env" by simp
  from Cons.IH [OF rest i(1) c1 i(3), of "as @ attempt c (cmd_count s) env"]
  obtain s' where
    "rd_exec g d (concat (map retry_round envs)) (Select, s1, as @ attempt c (cmd_count s) env)
       = (Select, s', (as @ attempt c (cmd_count s) env) @ attempts c (cmd_count s1) envs)"
    and "deployCtx s' = Some c" "cancelled s' = cancelled s1" "mu s' = None"
    by blast
  with r i show ?case by simp
qed


lemma blocked_stays:
  "rd_step g d env k s = None \<Longrightarrow> \<forall>env. rd_step g d env k s = None \<Longrightarrow>
   rd_exec g d (map Answer envs) (k, s, as) = (k, s, as)"
  by (induction envs) simp_all

text \<open>
  C5. While the lifetime in \<open>deployCtx\<close> is not cancelled, a deploy command that exits
  with an error every time is retried for as many rounds as one cares to run: after any
  number of failing attempts the goroutine is back at the top of its loop, never
  finished, and its actions are exactly one pull, one launch and one sleep of
  \<open>retryDelay\<close> (10 seconds) per attempt, the pull before the launch each time.
\<close>

theorem failing_deploy_retries_without_bound:
  assumes "\<forall>env \<in> set envs. deploy_fails env"
    and "deployCtx s = Some c" and "c \<notin> cancelled s" and "mu s = None"
  shows "fst (rd_exec g d (concat (map retry_round envs)) (Select, s, [])) = Select
       \<and> snd (snd (rd_exec g d (concat (map retry_round envs)) (Select, s, [])))
           = attempts c (cmd_count s) envs"
  using retry_rounds [OF assms, of g d "[]"] by auto

theorem failing_deploy_retries_without_bound_witness:
  "deploy_fails exit1
   \<and> deployCtx ready = Some 0 \<and> 0 \<notin> cancelled ready \<and> mu ready = None
   \<and> fst (rd_exec 1 ''./run.sh'' (concat (map retry_round [exit1, exit1, exit1])) (Select, ready, []))
       = Select
   \<and> count_list
        (snd (snd (rd_exec 1 ''./run.sh'' (concat (map retry_round [exit1, exit1, exit1]))
                    (Select, ready, []))))
        (ExecCtx 0 [''git'', ''pull'']) = 3
   \<and> count_list
        (snd (snd (rd_exec 1 ''./run.sh'' (concat (map retry_round [exit1, exit1, exit1]))
                    (Select, ready, []))))
        (Sleep (10 * Second)) = 3"
proof -
  have h: "\<forall>env \<in> set [exit1, exit1, exit1]. deploy_fails env"
    by (simp add: deploy_fails_def exit1_def)
  have r: "deployCtx ready = Some 0" "0 \<notin> cancelled ready" "mu ready = None"
    by (simp_all add: ready_def startup_def)
  show ?thesis
    using h r failing_deploy_retries_without_bound [OF h r, of 1 "''./run.sh''"]
    by (simp add: attempt_def retryDelay_def)
qed

text \<open>
  C1 as stated fails. Goroutine 1 deploys commit \<open>abc123\<close> under context 0, its pull
  fails at time 0 and it sleeps until 10 s. At 3 s commit \<open>def456\<close> is detected and
  goroutine 2 cancels context 0. Goroutine 1, given the chance to run, stays asleep: it
  is not in \<open>Cancelled\<close>. Goroutine 2 installs context 1. At 10 s goroutine 1 wakes, reads
  \<open>deployCtx\<close>, finds context 1 not cancelled, logs the start of a deploy and pulls
  again.
\<close>

theorem backoff_cancel_counterexample:
  "runners (sys_run ''tok'' ''./run.sh'' stale_until_cancel boot)
     = [Sleeping (10 * Second) Select, KillPrev]
   \<and> now (sh (sys_run ''tok'' ''./run.sh'' stale_until_cancel boot)) = 3 * Second
   \<and> 0 \<in> cancelled (sh (sys_run ''tok'' ''./run.sh'' stale_until_cancel boot))
   \<and> runners (sys_run ''tok'' ''./run.sh'' (stale_until_cancel @ stale_after_cancel) boot)
     = [Sleeping (20 * Second) Select, Select]
   \<and> drop 41 (trace (sys_run ''tok'' ''./run.sh'' (stale_until_cancel @ stale_after_cancel) boot))
     = [(1, Read DeployCtx), (1, Log ''Starting deploy...''),
        (1, Read DeployCtx), (1, ExecCtx 1 [''git'', ''pull'']),
        (1, Log ''git pull failed: exit status 1''), (1, Sleep (10 * Second))]"
  by (simp add: sys_run_def stale_until_cancel_def stale_after_cancel_def boot_def startup_def
      pull_fails_def ok_poll_def check_def getCurrentBranch_def getRepoOwnerAndName_def
      Let_def StatusOK_def TrimSpace_def isSpace_def retryDelay_def Second_def)

lemma sleeping_blocked:
  "now s < w \<Longrightarrow> rd_exec g d (map Answer envs) (Sleeping w k, s, as) = (Sleeping w k, s, as)"
  by (induction envs) simp_all

text \<open>
  C1 amended. A goroutine in its retry backoff whose lifetime has been cancelled does
  not move, however often it is scheduled, before the 10 seconds are over: nothing
  interrupts \<open>time.Sleep\<close>. Once the delay has elapsed it returns to the \<open>select\<close>; if
  the context then stored in \<open>deployCtx\<close> is cancelled, it logs the cancellation and
  ends in \<open>Cancelled\<close> with no pull and no launch.
\<close>

theorem backoff_runs_full_delay:
  assumes "deployCtx s = Some c" and "c \<in> cancelled s" and "now s < w"
  shows "rd_exec g d (map Answer envs) (Sleeping w Select, s, as) = (Sleeping w Select, s, as)
       \<and> (w \<le> now s + n \<longrightarrow>
            rd_exec g d [Elapse n, Answer env, Answer env'] (Sleeping w Select, s, as)
              = (Cancelled, s\<lparr>now := now s + n\<rparr>, as @ [Read DeployCtx, Log ''Deploy cancelled'']))"
  using assms by (simp add: sleeping_blocked)

theorem backoff_runs_full_delay_witness:
  "deployCtx (ready\<lparr>cancelled := {0}, now := 3 * Second\<rparr>) = Some 0
   \<and> 0 \<in> cancelled (ready\<lparr>cancelled := {0}, now := 3 * Second\<rparr>)
   \<and> now (ready\<lparr>cancelled := {0}, now := 3 * Second\<rparr>) < 10 * Second
   \<and> rd_exec 1 ''./run.sh'' (map Answer [exit1, exit1])
        (Sleeping (10 * Second) Select, ready\<lparr>cancelled := {0}, now := 3 * Second\<rparr>, [])
      = (Sleeping (10 * Second) Select, ready\<lparr>cancelled := {0}, now := 3 * Second\<rparr>, [])
   \<and> fst (rd_exec 1 ''./run.sh'' [Elapse (7 * Second), Answer exit1, Answer exit1]
        (Sleeping (10 * Second) Select, ready\<lparr>cancelled := {0}, now := 3 * Second\<rparr>, []))
      = Cancelled"
proof -
  have h: "deployCtx (ready\<lparr>cancelled := {0}, now := 3 * Second\<rparr>) = Some 0"
    "0 \<in> cancelled (ready\<lparr>cancelled := {0}, now := 3 * Second\<rparr>)"
    "now (ready\<lparr>cancelled := {0}, now := 3 * Second\<rparr>) < 10 * Second"
    by (simp_all add: ready_def startup_def Second_def)
  have n: "10 * Second \<le> now (ready\<lparr>cancelled := {0}, now := 3 * Second\<rparr>) + 7 * Second"
    by (simp add: Second_def)
  show ?thesis
    using h n backoff_runs_full_delay [OF h, of 1 "''./run.sh''" "[exit1, exit1]" "[]"
        "7 * Second" exit1 exit1]
    by simp
qed

text \<open>
  C2. When a deployment process is tracked and the system still knows it (\<open>Getpgid\<close>
  succeeds), teardown does, in this order and all before \<open>context.WithCancel\<close>: one
  \<open>SIGKILL\<close> sent to the negated group id, that is to the whole process group; a \<open>Wait\<close>
  on the tracked command; a sleep of 2 seconds. Until those 2 seconds have passed the
  goroutine does nothing more; after them it creates the new lifetime and unlocks.
\<close>

theorem teardown_kills_group_then_waits_then_pauses:
  assumes "mu s = None" and "deployProcess s = Some p" and "Process (cmds s p) = Some pid"
    and "getpgid_ret env = Inr pgid"
  shows "fst (rd_exec g d [Answer env, Answer env, Answer env, Answer env, Answer env]
               (Entry, s, []))
           = Sleeping (now s + 2 * Second) NewLifetime
       \<and> snd (snd (rd_exec g d [Answer env, Answer env, Answer env, Answer env, Answer env]
               (Entry, s, [])))
           = teardown_trace s p pid pgid
       \<and> (n < 2 * Second \<longrightarrow>
            snd (snd (rd_exec g d
               ([Answer env, Answer env, Answer env, Answer env, Answer env, Elapse n]
                 @ map Answer envs) (Entry, s, [])))
            = teardown_trace s p pid pgid)
       \<and> snd (snd (rd_exec g d
               [Answer env, Answer env, Answer env, Answer env, Answer env, Elapse (2 * Second),
                Answer env, Answer env, Answer env] (Entry, s, [])))
           = teardown_trace s p pid pgid
             @ [WithCancel (ctx_count s), Write DeployCtx, Write DeployCancel, Unlock]
       \<and> count_list (teardown_trace s p pid pgid) (Kill (- pgid) SIGKILL) = 1
       \<and> (\<forall>t sg. Kill t sg \<in> set (teardown_trace s p pid pgid) \<longrightarrow> t = - pgid \<and> sg = SIGKILL)"
  using assms
  by (auto simp add: teardown_trace_def sleeping_blocked Let_def split: option.splits)


theorem teardown_kills_group_then_waits_then_pauses_witness:
  "mu deployed = None \<and> deployProcess deployed = Some 0
   \<and> Process (cmds deployed 0) = Some 4242 \<and> getpgid_ret exit1 = Inr 4242
   \<and> snd (snd (rd_exec 2 ''./run.sh''
               [Answer exit1, Answer exit1, Answer exit1, Answer exit1, Answer exit1,
                Elapse (2 * Second), Answer exit1, Answer exit1, Answer exit1]
               (Entry, deployed, [])))
       = [Lock, Read DeployCancel, Log ''Cancelling previous deploy...'', Read DeployCancel,
          Cancel 0, Read DeployProcess, Read DeployProcess,
          Log ''Killing previous server process group...'', Read DeployProcess,
          Getpgid 4242, Kill (- 4242) SIGKILL, Read DeployProcess, Wait 0,
          Sleep (2 * Second), WithCancel 1, Write DeployCtx, Write DeployCancel, Unlock]"
  using teardown_kills_group_then_waits_then_pauses
    [where s = deployed and p = 0 and pid = 4242 and env = exit1 and pgid = 4242 and g = 2
       and d = "''./run.sh''" and n = 0 and envs = "[]"]
  by (simp add: deployed_def ready_def startup_def exit1_def teardown_trace_def)





lemma guarded_append:
  "guarded P h (as @ bs) \<longleftrightarrow> guarded P h as \<and> guarded P (held_after h as) bs"
  by (induction P h as rule: guarded.induct) simp_all

lemma held_after_append: "held_after h (as @ bs) = held_after (held_after h as) bs"
  by (induction h as rule: held_after.induct) simp_all

lemma rd_step_discipline:
  assumes "rd_step g d env k s = Some (k', s', bs)"
  shows "guarded under_mu (holds k) bs \<and> (k' \<noteq> Panic \<longrightarrow> held_after (holds k) bs = holds k')
       \<and> Read LastSHA \<notin> set bs \<and> Write LastSHA \<notin> set bs"
  using assms
  by (cases k) (auto simp add: Let_def split: option.splits sum.splits if_splits)

lemma rd_exec_discipline:
  assumes "rd_exec g d evs (k, s, as) = (k', s', as')"
    and "guarded under_mu False as" and "k \<noteq> Panic \<longrightarrow> held_after False as = holds k"
    and "Read LastSHA \<notin> set as" and "Write LastSHA \<notin> set as"
  shows "guarded under_mu False as' \<and> Read LastSHA \<notin> set as' \<and> Write LastSHA \<notin> set as'"
  using assms
proof (induction evs arbitrary: k s as)
  case Nil
  then show ?case by simp
next
  case (Cons ev evs)
  show ?case
  proof (cases ev)
    case (Elapse n)
    with Cons.prems Cons.IH [of k "s\<lparr>now := now s + n\<rparr>" as] show ?thesis by simp
  next
    case (Answer env)
    show ?thesis
    proof (cases "rd_step g d env k s")
      case None
      with Answer Cons.prems Cons.IH [of k s as] show ?thesis by simp
    next
      case (Some r)
      obtain k1 s1 bs where r: "r = (k1, s1, bs)" by (cases r)
      from Some have kp: "k \<noteq> Panic" by auto
      from rd_step_discipline [of g d env k s k1 s1 bs] Some r
      have b: "guarded under_mu (holds k) bs" "k1 \<noteq> Panic \<longrightarrow> held_after (holds k) bs = holds k1"
        "Read LastSHA \<notin> set bs" "Write LastSHA \<notin> set bs"
        by simp_all
      from Answer Some r Cons.prems(1)
      have e: "rd_exec g d evs (k1, s1, as @ bs) = (k', s', as')" by simp
      from Cons.prems b kp have
        "guarded under_mu False (as @ bs)" "k1 \<noteq> Panic \<longrightarrow> held_after False (as @ bs) = holds k1"
        "Read LastSHA \<notin> set (as @ bs)" "Write LastSHA \<notin> set (as @ bs)"
        by (simp_all add: guarded_append held_after_append)
      with Cons.IH [OF e] show ?thesis by simp
    qed
  qed
qed

lemma check_accesses:
  "a \<in> set (snd (snd (check tok env l))) \<Longrightarrow>
     a \<noteq> Lock \<and> a \<noteq> Unlock \<and> (is_access a \<longrightarrow> a = Read LastSHA \<or> a = Write LastSHA)"
  by (auto simp add: check_def getCurrentBranch_def getRepoOwnerAndName_def Let_def
      split: sum.splits option.splits if_splits)

text \<open>
  C6 as stated fails. \<open>check\<close> reads and writes \<open>lastSHA\<close> and never takes the mutex; a
  deploy goroutine reads \<open>deployCtx\<close> at the \<open>select\<close> of line 133 after it has
  released the mutex at line 129.
\<close>

theorem lock_discipline_counterexample:
  "\<not> guarded is_access False (snd (snd (check ''tok'' (ok_poll ''abc123'') '''')))
   \<and> \<not> guarded is_access False
        (snd (snd (rd_exec 1 ''./run.sh''
           [Answer gone, Answer gone, Answer gone, Answer gone, Answer gone, Answer gone]
           (Entry, startup, []))))"
  by (simp add: check_def ok_poll_def getCurrentBranch_def getRepoOwnerAndName_def Let_def
      StatusOK_def TrimSpace_def isSpace_def startup_def gone_def)

text \<open>
  C6 amended. In every run of a deploy goroutine, every assignment to a shared variable
  and every read of \<open>deployCancel\<close> and of \<open>deployProcess\<close> happens while the goroutine
  holds the mutex, and the goroutine never touches \<open>lastSHA\<close>. \<open>check\<close> takes no lock and
  the only shared variable it reads or writes is \<open>lastSHA\<close>; it runs in the main
  goroutine only, one call after the other (\<open>poll_loop\<close>).
\<close>

theorem deploy_fields_guarded_by_mutex:
  "guarded under_mu False (snd (snd (rd_exec g d evs (Entry, s, []))))
   \<and> Read LastSHA \<notin> set (snd (snd (rd_exec g d evs (Entry, s, []))))
   \<and> Write LastSHA \<notin> set (snd (snd (rd_exec g d evs (Entry, s, []))))
   \<and> (\<forall>a \<in> set (snd (snd (check tok env l))).
         a \<noteq> Lock \<and> a \<noteq> Unlock \<and> (is_access a \<longrightarrow> a = Read LastSHA \<or> a = Write LastSHA))"
proof -
  obtain k' s' as' where e: "rd_exec g d evs (Entry, s, []) = (k', s', as')"
    by (cases "rd_exec g d evs (Entry, s, [])")
  from rd_exec_discipline [OF e] e check_accesses [of _ tok env l]
  show ?thesis by auto
qed

theorem deploy_fields_guarded_by_mutex_witness:
  "guarded under_mu False
     (snd (snd (rd_exec 1 ''./run.sh''
        [Answer gone, Answer gone, Answer gone, Answer gone, Answer gone, Answer gone]
        (Entry, startup, []))))
   \<and> Write DeployCtx \<in> set (snd (snd (rd_exec 1 ''./run.sh''
        [Answer gone, Answer gone, Answer gone, Answer gone, Answer gone, Answer gone]
        (Entry, startup, []))))
   \<and> Write LastSHA \<in> set (snd (snd (check ''tok'' (ok_poll ''abc123'') '''')))
   \<and> Lock \<notin> set (snd (snd (check ''tok'' (ok_poll ''abc123'') '''')))"
  using deploy_fields_guarded_by_mutex
      [where g = 1 and d = "''./run.sh''" and s = startup and tok = "''tok''"
         and env = "ok_poll ''abc123''" and l = "''''"
         and evs = "[Answer gone, Answer gone, Answer gone, Answer gone, Answer gone, Answer gone]"]
  by (simp add: check_def ok_poll_def getCurrentBranch_def getRepoOwnerAndName_def Let_def
      StatusOK_def TrimSpace_def isSpace_def startup_def gone_def)

end
